theory Spec2Isabelle
  imports Complex_Main
begin

section \<open>The query set generator of \<^verbatim>\<open>run_elasticsearch.py\<close>\<close>

text \<open>
  \<^verbatim>\<open>generate_test_queries\<close> takes no argument, reads no global and returns the list
  literal bound to its local \<^verbatim>\<open>queries\<close>. The literal is copied here in source order.
\<close>

definition queries :: "string list" where
  "queries =
    [''artificial intelligence machine learning'',
     ''software development programming'',
     ''data science analytics'',
     ''cloud computing infrastructure'',
     ''cybersecurity network protection'',
     ''quantum computing research'',
     ''climate change environment'',
     ''space exploration technology'',
     ''medical research health'',
     ''renewable energy solar'',
     ''genetic engineering biology'',
     ''economic policy government'',
     ''election campaign politics'',
     ''international relations diplomacy'',
     ''education system reform'',
     ''transportation infrastructure'',
     ''financial markets investment'',
     ''social media platform'',
     ''healthcare insurance coverage'',
     ''technology'',
     ''science'',
     ''education'',
     ''quantum entanglement photon'',
     ''blockchain cryptocurrency decentralized'']"

text \<open>
  A call is a step on the world \<open>'w\<close> (file system, search service, clock): the function
  hands the world back as it found it and returns the literal.
\<close>

definition generate_test_queries :: "'w \<Rightarrow> string list \<times> 'w" where
  "generate_test_queries w = (queries, w)"

text \<open>
  The number of words of a query, as \<^verbatim>\<open>len(q.split())\<close> counts them: a word starts at
  every character that is not a blank and is not preceded by a character of a word.
\<close>

fun count_words_from :: "bool \<Rightarrow> string \<Rightarrow> nat" where
  "count_words_from in_word [] = 0"
| "count_words_from in_word (c # cs) =
     (if c = CHR '' '' then count_words_from False cs
      else (if in_word then 0 else 1) + count_words_from True cs)"

definition word_count :: "string \<Rightarrow> nat" where
  "word_count q = count_words_from False q"

section \<open>The top-level runner \<^verbatim>\<open>main\<close>\<close>

text \<open>
  Python exceptions, by the handler of \<^verbatim>\<open>main\<close> that catches them: the two classes it
  names, any other subclass of \<^verbatim>\<open>Exception\<close>, and the exceptions outside \<^verbatim>\<open>Exception\<close>
  (\<^verbatim>\<open>KeyboardInterrupt\<close>, \<^verbatim>\<open>SystemExit\<close>), which no handler of \<^verbatim>\<open>main\<close> catches. The
  string is the exception's message.
\<close>

datatype exn =
    FileNotFoundError string
  | ConnectionError string
  | OtherException string
  | NonException string

text \<open>
  The dictionaries that the indexer returns, with the keys that \<^verbatim>\<open>main\<close> reads. Python
  floats are modelled as reals.
\<close>

record indexing_stats =
  total_docs :: nat
  docs_per_second :: real

record search_stats =
  mean_latency_ms :: real
  median_latency_ms :: real
  p95_latency_ms :: real
  p99_latency_ms :: real

record memory_stats =
  store_size_mb :: real

text \<open>The \<^verbatim>\<open>summary\<close> dictionary built at the end of \<^verbatim>\<open>main\<close>, its nesting flattened.\<close>

record summary =
  activity :: string
  version :: string
  news_documents :: nat
  news_index_name :: string
  wiki_documents :: nat
  wiki_index_name :: string
  news_p95_ms :: real
  news_p99_ms :: real
  news_mean_ms :: real
  wiki_p95_ms :: real
  wiki_p99_ms :: real
  wiki_mean_ms :: real
  news_indexing_docs_per_sec :: real
  wiki_indexing_docs_per_sec :: real
  news_mb :: real
  wiki_mb :: real
  query_count :: nat

text \<open>What \<^verbatim>\<open>json.dump\<close> is given to write.\<close>

datatype payload =
    JIndexingStats indexing_stats
  | JQueries "string list"
  | JSearchStats search_stats
  | JMemory memory_stats
  | JSummary summary

text \<open>
  The observable events of a run, in order: a line printed, a call of a collaborator with
  its arguments (for \<^verbatim>\<open>os.path.exists\<close> also its answer), and \<open>Raised\<close> right after the
  call that raised.
\<close>

datatype 'd event =
    Print string
  | PrintTraceback
  | Call_makedirs string
  | Call_path_exists string bool
  | Call_ElasticsearchIndexer bool
  | Call_load_jsonl_data string nat
  | Call_create_index string
  | Call_index_documents string "'d list"
  | Call_batch_search string "string list" nat
  | Call_get_index_stats string
  | Call_dump string payload
  | Raised exn

text \<open>
  The collaborators of \<^verbatim>\<open>main\<close> are not part of this file (\<^verbatim>\<open>os\<close>, \<^verbatim>\<open>json\<close> and the
  module \<^verbatim>\<open>es_indexer\<close>), so they are parameters: each is a step on the world \<open>'w\<close> that
  returns a value or raises. \<open>'d\<close> is the type of a document, \<open>'r\<close> that of the hits of a
  batch search. \<^verbatim>\<open>batch_search\<close> receives the list object \<^verbatim>\<open>test_queries\<close> itself and
  could change it in place, so it also returns the list as it leaves it. \<open>dump_json\<close> is
  \<^verbatim>\<open>with open(path, 'w') as f: json.dump(obj, f, indent=2)\<close>.
\<close>

record ('w, 'd, 'r) collaborators =
  makedirs :: "string \<Rightarrow> 'w \<Rightarrow> (exn + unit) \<times> 'w"
  path_exists :: "string \<Rightarrow> 'w \<Rightarrow> bool"
  ElasticsearchIndexer :: "bool \<Rightarrow> 'w \<Rightarrow> (exn + unit) \<times> 'w"
  load_jsonl_data :: "string \<Rightarrow> nat \<Rightarrow> 'w \<Rightarrow> (exn + 'd list) \<times> 'w"
  create_index :: "string \<Rightarrow> 'w \<Rightarrow> (exn + unit) \<times> 'w"
  index_documents :: "string \<Rightarrow> 'd list \<Rightarrow> 'w \<Rightarrow> (exn + indexing_stats) \<times> 'w"
  batch_search ::
    "string \<Rightarrow> string list \<Rightarrow> nat \<Rightarrow> 'w \<Rightarrow> (exn + ('r \<times> search_stats) \<times> string list) \<times> 'w"
  get_index_stats :: "string \<Rightarrow> 'w \<Rightarrow> (exn + memory_stats) \<times> 'w"
  dump_json :: "string \<Rightarrow> payload \<Rightarrow> 'w \<Rightarrow> (exn + unit) \<times> 'w"

text \<open>The state of a run: the world and the events so far.\<close>

record ('w, 'd) run =
  world :: 'w
  trace :: "'d event list"

text \<open>
  A statement either falls through to the next one with a value, returns from \<^verbatim>\<open>main\<close>
  with an exit code, or raises.
\<close>

datatype 'a outcome = Next 'a | Return int | Raise exn

definition then_do ::
  "('s \<Rightarrow> 'a outcome \<times> 's) \<Rightarrow> ('a \<Rightarrow> 's \<Rightarrow> 'b outcome \<times> 's) \<Rightarrow> 's \<Rightarrow> 'b outcome \<times> 's" where
  "then_do m f s =
     (case m s of
        (Next a, s') \<Rightarrow> f a s'
      | (Return code, s') \<Rightarrow> (Return code, s')
      | (Raise e, s') \<Rightarrow> (Raise e, s'))"

definition print :: "string \<Rightarrow> ('w, 'd) run \<Rightarrow> unit outcome \<times> ('w, 'd) run" where
  "print line s = (Next (), s\<lparr>trace := trace s @ [Print line]\<rparr>)"

definition call ::
  "'d event \<Rightarrow> ('w \<Rightarrow> (exn + 'a) \<times> 'w) \<Rightarrow> ('w, 'd) run \<Rightarrow> 'a outcome \<times> ('w, 'd) run" where
  "call ev f s =
     (case f (world s) of
        (Inl e, w') \<Rightarrow> (Raise e, \<lparr>world = w', trace = trace s @ [ev, Raised e]\<rparr>)
      | (Inr a, w') \<Rightarrow> (Next a, \<lparr>world = w', trace = trace s @ [ev]\<rparr>))"

definition return :: "int \<Rightarrow> 's \<Rightarrow> 'a outcome \<times> 's" where
  "return code s = (Return code, s)"

definition skip :: "'s \<Rightarrow> unit outcome \<times> 's" where
  "skip s = (Next (), s)"

text \<open>\<^verbatim>\<open>os.path.exists(path)\<close>: it answers and never raises.\<close>

definition exists_path ::
  "('w, 'd, 'r) collaborators \<Rightarrow> string \<Rightarrow> ('w, 'd) run \<Rightarrow> bool outcome \<times> ('w, 'd) run" where
  "exists_path c path s =
     (let found = path_exists c path (world s)
      in (Next found, s\<lparr>trace := trace s @ [Call_path_exists path found]\<rparr>))"

text \<open>\<^verbatim>\<open>try: body except ...: handlers\<close>: what the body raises goes to the handlers.\<close>

definition try_except ::
  "('s \<Rightarrow> 'a outcome \<times> 's) \<Rightarrow> (exn \<Rightarrow> 's \<Rightarrow> 'a outcome \<times> 's) \<Rightarrow> 's \<Rightarrow> 'a outcome \<times> 's" where
  "try_except body handlers s =
     (case body s of
        (Raise e, s') \<Rightarrow> handlers e s'
      | (Return code, s') \<Rightarrow> (Return code, s')
      | (Next a, s') \<Rightarrow> (Next a, s'))"

text \<open>\<^verbatim>\<open>ensure_directories\<close>: three \<^verbatim>\<open>os.makedirs(..., exist_ok=True)\<close>.\<close>

definition ensure_directories ::
  "('w, 'd, 'r) collaborators \<Rightarrow> ('w, 'd) run \<Rightarrow> unit outcome \<times> ('w, 'd) run" where
  "ensure_directories c =
     then_do (call (Call_makedirs ''results/metrics'') (makedirs c ''results/metrics'')) (\<lambda>_.
     then_do (call (Call_makedirs ''results/plots'') (makedirs c ''results/plots'')) (\<lambda>_.
     call (Call_makedirs ''tests/query_sets'') (makedirs c ''tests/query_sets'')))"

text \<open>The literals that \<^verbatim>\<open>main\<close> binds to its locals of the same names.\<close>

definition news_file :: string where
  "news_file = ''data/raw/news/news_raw.jsonl''"

definition wiki_file :: string where
  "wiki_file = ''data/raw/wiki/wiki_raw.jsonl''"

definition news_index :: string where
  "news_index = ''esindex-v1.0-news''"

definition wiki_index :: string where
  "wiki_index = ''esindex-v1.0-wiki''"

definition dump ::
  "('w, 'd, 'r) collaborators \<Rightarrow> string \<Rightarrow> payload \<Rightarrow> ('w, 'd) run \<Rightarrow> unit outcome \<times> ('w, 'd) run" where
  "dump c path obj = call (Call_dump path obj) (dump_json c path obj)"

text \<open>
  The body of the \<^verbatim>\<open>try\<close> block of \<^verbatim>\<open>main\<close>, statement by statement. The banners and
  progress lines printed on the way are left out (they cannot change the control flow); the
  lines printed before an early \<^verbatim>\<open>return 1\<close> are kept, without their leading newline and
  pictograph. \<open>test_queries_1\<close> and \<open>test_queries_2\<close> are the list object \<^verbatim>\<open>test_queries\<close>
  as the first and the second batch search leave it.
\<close>

definition main_try ::
  "('w, 'd, 'r) collaborators \<Rightarrow> ('w, 'd) run \<Rightarrow> unit outcome \<times> ('w, 'd) run" where
  "main_try c =
     then_do (call (Call_ElasticsearchIndexer True) (ElasticsearchIndexer c True)) (\<lambda>indexer.
     then_do (exists_path c news_file) (\<lambda>news_file_exists.
     then_do (if \<not> news_file_exists
              then then_do (print (''Error: '' @ news_file @ '' not found!'')) (\<lambda>_.
                   then_do (print ''Please run: python src/utils/data_downloader.py'') (\<lambda>_.
                   return 1))
              else skip) (\<lambda>_.
     then_do (call (Call_load_jsonl_data news_file 5000) (load_jsonl_data c news_file 5000))
       (\<lambda>news_docs.
     then_do (call (Call_create_index news_index) (create_index c news_index)) (\<lambda>_.
     then_do (call (Call_index_documents news_index news_docs)
                (index_documents c news_index news_docs)) (\<lambda>news_stats.
     then_do (dump c ''results/metrics/es_news_indexing_stats.json'' (JIndexingStats news_stats))
       (\<lambda>_.
     then_do (exists_path c wiki_file) (\<lambda>wiki_file_exists.
     then_do (if \<not> wiki_file_exists
              then then_do (print (''Error: '' @ wiki_file @ '' not found!'')) (\<lambda>_.
                   then_do (print ''Please run: python src/utils/data_downloader.py'') (\<lambda>_.
                   return 1))
              else skip) (\<lambda>_.
     then_do (call (Call_load_jsonl_data wiki_file 5000) (load_jsonl_data c wiki_file 5000))
       (\<lambda>wiki_docs.
     then_do (call (Call_create_index wiki_index) (create_index c wiki_index)) (\<lambda>_.
     then_do (call (Call_index_documents wiki_index wiki_docs)
                (index_documents c wiki_index wiki_docs)) (\<lambda>wiki_stats.
     then_do (dump c ''results/metrics/es_wiki_indexing_stats.json'' (JIndexingStats wiki_stats))
       (\<lambda>_.
     then_do (\<lambda>s. case generate_test_queries (world s) of
                  (qs, w') \<Rightarrow> (Next qs, s\<lparr>world := w'\<rparr>)) (\<lambda>test_queries.
     then_do (dump c ''tests/query_sets/test_queries.json'' (JQueries test_queries)) (\<lambda>_.
     then_do (call (Call_batch_search news_index test_queries 10)
                (batch_search c news_index test_queries 10))
       (\<lambda>((news_results, news_search_stats), test_queries_1).
     then_do (dump c ''results/metrics/es_news_search_stats.json'' (JSearchStats news_search_stats))
       (\<lambda>_.
     then_do (call (Call_batch_search wiki_index test_queries_1 10)
                (batch_search c wiki_index test_queries_1 10))
       (\<lambda>((wiki_results, wiki_search_stats), test_queries_2).
     then_do (dump c ''results/metrics/es_wiki_search_stats.json'' (JSearchStats wiki_search_stats))
       (\<lambda>_.
     then_do (call (Call_get_index_stats news_index) (get_index_stats c news_index))
       (\<lambda>news_memory.
     then_do (call (Call_get_index_stats wiki_index) (get_index_stats c wiki_index))
       (\<lambda>wiki_memory.
     then_do (dump c ''results/metrics/es_news_memory.json'' (JMemory news_memory)) (\<lambda>_.
     then_do (dump c ''results/metrics/es_wiki_memory.json'' (JMemory wiki_memory)) (\<lambda>_.
     then_do (dump c ''results/metrics/summary_report.json''
                (JSummary
                  \<lparr>activity = ''Activity 1 - Elasticsearch Implementation'',
                   version = ''ESIndex-v1.0'',
                   news_documents = total_docs news_stats,
                   news_index_name = news_index,
                   wiki_documents = total_docs wiki_stats,
                   wiki_index_name = wiki_index,
                   news_p95_ms = p95_latency_ms news_search_stats,
                   news_p99_ms = p99_latency_ms news_search_stats,
                   news_mean_ms = mean_latency_ms news_search_stats,
                   wiki_p95_ms = p95_latency_ms wiki_search_stats,
                   wiki_p99_ms = p99_latency_ms wiki_search_stats,
                   wiki_mean_ms = mean_latency_ms wiki_search_stats,
                   news_indexing_docs_per_sec = docs_per_second news_stats,
                   wiki_indexing_docs_per_sec = docs_per_second wiki_stats,
                   news_mb = store_size_mb news_memory,
                   wiki_mb = store_size_mb wiki_memory,
                   query_count = length test_queries_2\<rparr>)) (\<lambda>_.
     return 0))))))))))))))))))))))))"

text \<open>
  The three \<^verbatim>\<open>except\<close> clauses of \<^verbatim>\<open>main\<close>, in source order; an exception outside
  \<^verbatim>\<open>Exception\<close> matches none of them and leaves \<^verbatim>\<open>main\<close>.
\<close>

fun except_clauses :: "exn \<Rightarrow> ('w, 'd) run \<Rightarrow> unit outcome \<times> ('w, 'd) run" where
  "except_clauses (FileNotFoundError e) =
     then_do (print ''Error: Required file not found'') (\<lambda>_.
     then_do (print (''   '' @ e)) (\<lambda>_.
     then_do (print ''Make sure you've run:'') (\<lambda>_.
     then_do (print ''   python src/utils/data_downloader.py'') (\<lambda>_.
     return 1))))"
| "except_clauses (ConnectionError e) =
     then_do (print ''Error: Cannot connect to Elasticsearch'') (\<lambda>_.
     then_do (print (''   '' @ e)) (\<lambda>_.
     then_do (print ''Try:'') (\<lambda>_.
     then_do (print ''   python docker_setup.py start'') (\<lambda>_.
     return 1))))"
| "except_clauses (OtherException e) =
     then_do (print (''Unexpected error: '' @ e)) (\<lambda>_.
     then_do (print ''For debugging:'') (\<lambda>_.
     then_do (print ''   1. Check Docker: python docker_setup.py status'') (\<lambda>_.
     then_do (print ''   2. Check logs: python docker_setup.py logs'') (\<lambda>_.
     then_do (print ''   3. Check data files exist in data/raw/'') (\<lambda>_.
     then_do (\<lambda>s. (Next (), s\<lparr>trace := trace s @ [PrintTraceback]\<rparr>)) (\<lambda>_.
     return 1))))))"
| "except_clauses (NonException e) = (\<lambda>s. (Raise (NonException e), s))"

text \<open>
  \<^verbatim>\<open>main\<close>, run in the world \<open>w\<close>: \<^verbatim>\<open>ensure_directories()\<close> stands before the \<^verbatim>\<open>try\<close>,
  so what it raises leaves \<^verbatim>\<open>main\<close> uncaught.
\<close>

definition main :: "('w, 'd, 'r) collaborators \<Rightarrow> 'w \<Rightarrow> unit outcome \<times> ('w, 'd) run" where
  "main c w =
     then_do (ensure_directories c) (\<lambda>_. try_except (main_try c) except_clauses)
       \<lparr>world = w, trace = []\<rparr>"

text \<open>What a trace shows: the batch searches run, the loads made, the summaries written.\<close>

fun batch_searches :: "'d event list \<Rightarrow> (string \<times> string list \<times> nat) list" where
  "batch_searches [] = []"
| "batch_searches (Call_batch_search index qs k # evs) = (index, qs, k) # batch_searches evs"
| "batch_searches (ev # evs) = batch_searches evs"

fun summaries :: "'d event list \<Rightarrow> summary list" where
  "summaries [] = []"
| "summaries (Call_dump path (JSummary s) # evs) = s # summaries evs"
| "summaries (ev # evs) = summaries evs"

fun raised :: "'d event list \<Rightarrow> exn list" where
  "raised [] = []"
| "raised (Raised e # evs) = e # raised evs"
| "raised (ev # evs) = raised evs"


text \<open>
  What a trace shows further: the first call that raised, with what it raised; the events
  after the first exception; the lines printed.
\<close>

fun failure :: "'d event list \<Rightarrow> ('d event \<times> exn) option" where
  "failure [] = None"
| "failure [ev] = None"
| "failure (ev # ev' # evs) =
     (case ev' of Raised e \<Rightarrow> Some (ev, e) | _ \<Rightarrow> failure (ev' # evs))"

fun after_raise :: "'d event list \<Rightarrow> 'd event list" where
  "after_raise [] = []"
| "after_raise (Raised e # evs) = evs"
| "after_raise (ev # evs) = after_raise evs"


text \<open>The calls that go to the search service: the methods of the indexer and its constructor.\<close>

fun is_service_call :: "'d event \<Rightarrow> bool" where
  "is_service_call (Call_ElasticsearchIndexer auto_start_docker) = True"
| "is_service_call (Call_create_index index) = True"
| "is_service_call (Call_index_documents index docs) = True"
| "is_service_call (Call_batch_search index qs k) = True"
| "is_service_call (Call_get_index_stats index) = True"
| "is_service_call ev = False"

text \<open>
  The frame condition on the absent \<^verbatim>\<open>batch_search\<close>: a call that returns leaves the list
  it was given as it was.
\<close>

definition leaves_queries_unchanged :: "('w, 'd, 'r) collaborators \<Rightarrow> bool" where
  "leaves_queries_unchanged c =
     (\<forall>index qs k w.
        case batch_search c index qs k w of
          (Inl e, w') \<Rightarrow> True
        | (Inr (r, qs'), w') \<Rightarrow> qs' = qs)"

text \<open>
  Concrete collaborators for runs that can be computed. The world is the list of the paths
  that exist. \<open>all_up\<close>: every call succeeds. \<open>service_down\<close>: the indexer cannot connect.
\<close>

definition all_up :: "(string list, string, string list) collaborators" where
  "all_up =
     \<lparr>makedirs = (\<lambda>path w. (Inr (), w)),
      path_exists = (\<lambda>path w. path \<in> set w),
      ElasticsearchIndexer = (\<lambda>auto_start_docker w. (Inr (), w)),
      load_jsonl_data = (\<lambda>path limit w. (Inr [''{}''], w)),
      create_index = (\<lambda>index w. (Inr (), w)),
      index_documents =
        (\<lambda>index docs w. (Inr \<lparr>total_docs = length docs, docs_per_second = 250\<rparr>, w)),
      batch_search =
        (\<lambda>index qs k w.
           (Inr ((map (\<lambda>q. []) qs,
                  \<lparr>mean_latency_ms = 3, median_latency_ms = 2, p95_latency_ms = 8,
                   p99_latency_ms = 9\<rparr>), qs), w)),
      get_index_stats = (\<lambda>index w. (Inr \<lparr>store_size_mb = 12\<rparr>, w)),
      dump_json = (\<lambda>path obj w. (Inr (), path # w))\<rparr>"

definition service_down :: "(string list, string, string list) collaborators" where
  "service_down =
     all_up\<lparr>ElasticsearchIndexer :=
       (\<lambda>auto_start_docker w. (Inl (ConnectionError ''Connection refused''), w))\<rparr>"


text \<open>
  The handlers applied to the outcome of a body: \<open>try_except body handlers s\<close> is
  \<open>catching handlers (body s)\<close>.
\<close>

definition catching ::
  "(exn \<Rightarrow> 's \<Rightarrow> 'a outcome \<times> 's) \<Rightarrow> 'a outcome \<times> 's \<Rightarrow> 'a outcome \<times> 's" where
  "catching h r =
     (case r of
        (Raise e, s') \<Rightarrow> h e s'
      | (Return code, s') \<Rightarrow> (Return code, s')
      | (Next a, s') \<Rightarrow> (Next a, s'))"

section \<open>The text preprocessor of \<^verbatim>\<open>src/preprocessor.py\<close>\<close>





















section \<open>The search benchmark driver, from the specification\<close>

text \<open>
  \<^verbatim>\<open>batch_search\<close> lives in \<^verbatim>\<open>src/elasticsearch_impl/es_indexer.py\<close>, which is not among
  the source files. What follows is the Search Benchmark Driver as section 4.4 of the
  specification words it, with the freedoms left open there as parameters. Latencies are
  milliseconds, as reals.
\<close>

text \<open>
  Modelled from the spec: the percentile meth of the absent \<^verbatim>\<open>batch_search\<close>. The
  specification asks for "a documented, deterministic percentile meth (e.g., nearest-rank
  or linear interpolation)" and leaves the choice open, so both are modelled.
\<close>

datatype percentile_method = NearestRank | LinearInterpolation

text \<open>
  Modelled from the spec: the mean of the absent \<^verbatim>\<open>batch_search\<close>, by the "standard
  statistical definition": the sum over the count.
\<close>

definition mean_of :: "real list \<Rightarrow> real" where
  "mean_of L = sum_list L / real (length L)"

text \<open>
  Modelled from the spec: the median of the absent \<^verbatim>\<open>batch_search\<close>, by the "standard
  statistical definition": the middle of the sorted sequence, or the mean of the two middle
  values when the count is even.
\<close>

definition median_of :: "real list \<Rightarrow> real" where
  "median_of L =
     (let s = sort L; n = length s
      in if odd n then s ! (n div 2) else (s ! (n div 2 - 1) + s ! (n div 2)) / 2)"

text \<open>
  Modelled from the spec: the min aggregate of a SearchRun (section 3), which the absent
  \<^verbatim>\<open>batch_search\<close> would compute: the least latency.
\<close>

definition min_of :: "real list \<Rightarrow> real" where
  "min_of L = Min (set L)"

text \<open>
  Modelled from the spec: the max aggregate of a SearchRun (section 3), which the absent
  \<^verbatim>\<open>batch_search\<close> would compute: the greatest latency.
\<close>

definition max_of :: "real list \<Rightarrow> real" where
  "max_of L = Max (set L)"

text \<open>
  Modelled from the spec: linear interpolation in a sorted sequence at the fractional rank
  \<open>r\<close>, counted from 0: between the values at the ranks below and above \<open>r\<close>.
\<close>

definition interpolate :: "real list \<Rightarrow> real \<Rightarrow> real" where
  "interpolate s r =
     (let lo = nat \<lfloor>r\<rfloor>; hi = min (lo + 1) (length s - 1)
      in s ! lo + (r - real lo) * (s ! hi - s ! lo))"

text \<open>
  Modelled from the spec: the \<open>p\<close>-th percentile of the absent \<^verbatim>\<open>batch_search\<close>, by either
  method. Nearest rank: the value of rank \<open>\<lceil>p / 100 * n\<rceil>\<close>, counted from 1, of the sorted
  sequence. Linear interpolation: at the rank \<open>p / 100 * (n - 1)\<close>, counted from 0.
\<close>

fun percentile :: "percentile_method \<Rightarrow> real \<Rightarrow> real list \<Rightarrow> real" where
  "percentile NearestRank p L = sort L ! (nat \<lceil>p / 100 * real (length L)\<rceil> - 1)"
| "percentile LinearInterpolation p L =
     interpolate (sort L) (p / 100 * real (length L - 1))"

text \<open>
  Modelled from the spec: what the absent \<^verbatim>\<open>batch_search\<close> reports for an empty sequence.
  The specification allows "zero or no data"; \<open>None\<close> is "no data".
\<close>

datatype empty_policy = ReportZero | ReportNoData

text \<open>
  Modelled from the spec: the value that the absent \<^verbatim>\<open>batch_search\<close> gives an aggregate
  of an empty sequence, under either policy.
\<close>

fun empty_value :: "empty_policy \<Rightarrow> real option" where
  "empty_value ReportZero = Some 0"
| "empty_value ReportNoData = None"

text \<open>
  Modelled from the spec: an aggregate of the absent \<^verbatim>\<open>batch_search\<close>: the statistic of
  the latencies, or the value for an empty sequence when there are none.
\<close>

definition aggregate :: "empty_policy \<Rightarrow> (real list \<Rightarrow> real) \<Rightarrow> real list \<Rightarrow> real option" where
  "aggregate policy f L = (if L = [] then empty_value policy else Some (f L))"

text \<open>
  Modelled from the spec: the error of the absent \<^verbatim>\<open>batch_search\<close>: "if all queries fail,
  the driver fails with BenchmarkFailedError".
\<close>

datatype benchmark_error = BenchmarkFailedError

text \<open>
  Modelled from the spec: the result of the absent \<^verbatim>\<open>batch_search\<close>, the SearchRun of
  section 3: the latencies recorded, the failed queries counted separately, and the
  aggregates.
\<close>

record search_run =
  run_latencies :: "real list"
  run_failed :: nat
  run_mean :: "real option"
  run_median :: "real option"
  run_p95 :: "real option"
  run_p99 :: "real option"
  run_min :: "real option"
  run_max :: "real option"

text \<open>
  Modelled from the spec: the loop of the absent \<^verbatim>\<open>batch_search\<close>. It "executes each query
  sequentially", "recording wall-clock latency per query"; a failed query "is recorded as a
  failed query (excluded from latency aggregates, counted separately)". \<open>search q\<close> is the
  service's answer to the query: the latency measured, or \<open>None\<close> when the query failed.
\<close>

fun run_queries :: "(string \<Rightarrow> real option) \<Rightarrow> string list \<Rightarrow> real list \<times> nat" where
  "run_queries search [] = ([], 0)"
| "run_queries search (q # qs) =
     (case run_queries search qs of
        (ls, failed) \<Rightarrow>
          (case search q of None \<Rightarrow> (ls, Suc failed) | Some l \<Rightarrow> (l # ls, failed)))"

text \<open>
  Modelled from the spec: the absent \<^verbatim>\<open>batch_search\<close> as a whole, "given an index name, the
  fixed ordered query sequence, and a result-size limit". All queries failing is an error;
  an empty sequence is not ("all aggregates must be well-defined, never raise").
\<close>

definition search_benchmark ::
  "percentile_method \<Rightarrow> empty_policy \<Rightarrow> (string \<Rightarrow> string \<Rightarrow> nat \<Rightarrow> real option) \<Rightarrow>
   string \<Rightarrow> string list \<Rightarrow> nat \<Rightarrow> benchmark_error + search_run" where
  "search_benchmark meth policy search index qs k =
     (case run_queries (\<lambda>q. search index q k) qs of
        (ls, failed) \<Rightarrow>
          if qs \<noteq> [] \<and> ls = [] then Inl BenchmarkFailedError
          else Inr
            \<lparr>run_latencies = ls,
             run_failed = failed,
             run_mean = aggregate policy mean_of ls,
             run_median = aggregate policy median_of ls,
             run_p95 = aggregate policy (percentile meth 95) ls,
             run_p99 = aggregate policy (percentile meth 99) ls,
             run_min = aggregate policy min_of ls,
             run_max = aggregate policy max_of ls\<rparr>)"

text \<open>
  A service for runs that can be computed: it answers a query in as many milliseconds as
  the query has characters, and fails on the empty query. \<open>toy_run\<close> is the SearchRun of
  the queries \<^verbatim>\<open>a\<close>, \<^verbatim>\<open>bbb\<close>, the empty query and \<^verbatim>\<open>cc\<close> by nearest rank.
\<close>

definition toy_search :: "string \<Rightarrow> string \<Rightarrow> nat \<Rightarrow> real option" where
  "toy_search index q k = (if q = [] then None else Some (real (length q)))"

definition toy_run :: search_run where
  "toy_run =
     \<lparr>run_latencies = [1, 3, 2],
      run_failed = 1,
      run_mean = Some (mean_of [1, 3, 2]),
      run_median = Some (median_of [1, 3, 2]),
      run_p95 = Some (percentile NearestRank 95 [1, 3, 2]),
      run_p99 = Some (percentile NearestRank 99 [1, 3, 2]),
      run_min = Some (min_of [1, 3, 2]),
      run_max = Some (max_of [1, 3, 2])\<rparr>"

section \<open>Properties of the query set\<close>

lemma length_queries: "length queries = 24"
  by (simp add: queries_def)

text \<open>
  Claim C3. The query set generator is pure and deterministic: in whatever worlds it is
  invoked it returns the same ordered sequence of query strings, and it leaves the world it
  is invoked in untouched.
\<close>

theorem generate_test_queries_deterministic:
  "fst (generate_test_queries w1) = fst (generate_test_queries w2)
   \<and> snd (generate_test_queries w1) = w1
   \<and> fst (generate_test_queries w1) = queries"
  by (simp add: generate_test_queries_def)

text \<open>
  Token counts of the query set: for each of the word counts 1, 2, 3 and 4 the set holds a
  query of exactly that many words, and no query has fewer than one or more than four.
\<close>

lemma generate_test_queries_word_counts:
  "set (map word_count (fst (generate_test_queries w))) = {1, 2, 3, 4}"
  by (simp add: generate_test_queries_def queries_def word_count_def eval_nat_numeral insert_commute)

section \<open>Running \<^verbatim>\<open>main\<close> statement by statement\<close>

text \<open>
  A property \<open>Q\<close> of a run is shown by walking through the statements: each rule peels the
  first statement off, leaving the case that it raised (or returned) and the rest of the run.
\<close>

lemma try_except_catching: "try_except m h s = catching h (m s)"
  by (simp add: try_except_def catching_def split: prod.splits outcome.splits)

lemma then_do_assoc: "then_do (then_do m f) g = then_do m (\<lambda>a. then_do (f a) g)"
  by (rule ext) (simp add: then_do_def split: prod.splits outcome.splits)

lemma then_do_call:
  assumes "\<And>e w'. Q (Raise e, \<lparr>world = w', trace = t @ [ev, Raised e]\<rparr>)"
    and "\<And>a w'. Q (f a \<lparr>world = w', trace = t @ [ev]\<rparr>)"
  shows "Q (then_do (call ev g) f \<lparr>world = w, trace = t\<rparr>)"
  using assms by (auto simp: then_do_def call_def split: prod.splits sum.splits)

lemma then_do_batch_search:
  assumes "\<And>e w'. Q (Raise e, \<lparr>world = w', trace = t @ [ev, Raised e]\<rparr>)"
    and "\<And>r st qs' w'. g w = (Inr ((r, st), qs'), w') \<Longrightarrow>
           Q (f r st qs' \<lparr>world = w', trace = t @ [ev]\<rparr>)"
  shows "Q (then_do (call ev g) (\<lambda>((r, st), qs'). f r st qs') \<lparr>world = w, trace = t\<rparr>)"
  using assms by (auto simp: then_do_def call_def split: prod.splits sum.splits)

lemma then_do_exists_path:
  assumes "\<And>found. Q (f found \<lparr>world = w, trace = t @ [Call_path_exists path found]\<rparr>)"
  shows "Q (then_do (exists_path c path) f \<lparr>world = w, trace = t\<rparr>)"
  using assms by (simp add: then_do_def exists_path_def Let_def)

lemma then_do_missing:
  assumes "\<not> found \<Longrightarrow> Q (Return 1, \<lparr>world = w, trace = t @ [Print l1, Print l2]\<rparr>)"
    and "found \<Longrightarrow> Q (f () \<lparr>world = w, trace = t\<rparr>)"
  shows "Q (then_do (if \<not> found
                     then then_do (print l1) (\<lambda>_. then_do (print l2) (\<lambda>_. return 1))
                     else skip) f \<lparr>world = w, trace = t\<rparr>)"
  using assms by (auto simp: then_do_def print_def return_def skip_def)

lemma then_do_generate:
  assumes "Q (f queries \<lparr>world = w, trace = t\<rparr>)"
  shows "Q (then_do (\<lambda>s. case generate_test_queries (world s) of
                  (qs, w') \<Rightarrow> (Next qs, s\<lparr>world := w'\<rparr>)) f \<lparr>world = w, trace = t\<rparr>)"
  using assms by (simp add: then_do_def generate_test_queries_def)

lemma except_clauses_cases:
  "except_clauses e \<lparr>world = w, trace = t\<rparr> =
    (case e of
       FileNotFoundError m \<Rightarrow> (Return 1, \<lparr>world = w, trace = t @
          [Print ''Error: Required file not found'', Print (''   '' @ m),
           Print ''Make sure you've run:'', Print ''   python src/utils/data_downloader.py'']\<rparr>)
     | ConnectionError m \<Rightarrow> (Return 1, \<lparr>world = w, trace = t @
          [Print ''Error: Cannot connect to Elasticsearch'', Print (''   '' @ m),
           Print ''Try:'', Print ''   python docker_setup.py start'']\<rparr>)
     | OtherException m \<Rightarrow> (Return 1, \<lparr>world = w, trace = t @
          [Print (''Unexpected error: '' @ m), Print ''For debugging:'',
           Print ''   1. Check Docker: python docker_setup.py status'',
           Print ''   2. Check logs: python docker_setup.py logs'',
           Print ''   3. Check data files exist in data/raw/'', PrintTraceback]\<rparr>)
     | NonException m \<Rightarrow> (Raise (NonException m), \<lparr>world = w, trace = t\<rparr>))"
  by (cases e) (simp_all add: then_do_def print_def return_def)

lemma frame_batch_search:
  "leaves_queries_unchanged c \<Longrightarrow> batch_search c index qs k w = (Inr (r, qs'), w') \<Longrightarrow> qs' = qs"
  unfolding leaves_queries_unchanged_def
  by (erule allE [of _ index], erule allE [of _ qs], erule allE [of _ k], erule allE [of _ w])
    simp

lemma leaves_queries_unchanged_all_up: "leaves_queries_unchanged all_up"
  by (simp add: leaves_queries_unchanged_def all_up_def)

lemma batch_searches_all_up:
  "batch_searches (trace (snd (main all_up [news_file, wiki_file]))) =
     [(news_index, queries, 10), (wiki_index, queries, 10)]"
  by (simp add: main_def ensure_directories_def main_try_def dump_def then_do_def call_def
      try_except_def exists_path_def skip_def return_def generate_test_queries_def all_up_def)

section \<open>Properties of \<^verbatim>\<open>main\<close>\<close>

text \<open>
  Claim C4. The identical query sequence, unmutated, is used for every indexed dataset: in
  every run of \<^verbatim>\<open>main\<close> the batch searches made are, in order, at most the one on the news
  index and the one on the wiki index, and both are given the generated query list, element
  for element; nothing in \<^verbatim>\<open>main\<close> changes the list between the two. (\<^verbatim>\<open>batch_search\<close>
  itself is not part of the file: it is taken not to change the list it is given.)
\<close>

theorem main_reuses_queries:
  assumes "leaves_queries_unchanged c"
  shows "batch_searches (trace (snd (main c w))) \<in>
     {[], [(news_index, queries, 10)],
      [(news_index, queries, 10), (wiki_index, queries, 10)]}"
proof -
  note frame = frame_batch_search [OF assms]
  show ?thesis
    unfolding main_def ensure_directories_def then_do_assoc try_except_catching main_try_def
      dump_def
    apply (rule then_do_call, (simp add: catching_def except_clauses_cases  split: exn.splits; fail))
    apply (rule then_do_call, (simp add: catching_def except_clauses_cases  split: exn.splits; fail))
    apply (rule then_do_call, (simp add: catching_def except_clauses_cases  split: exn.splits; fail))
    apply (rule then_do_call, (simp add: catching_def except_clauses_cases  split: exn.splits; fail))
    apply (rule then_do_exists_path)
    apply (rule then_do_missing, (simp add: catching_def except_clauses_cases  split: exn.splits; fail))
    apply (rule then_do_call, (simp add: catching_def except_clauses_cases  split: exn.splits; fail))
    apply (rule then_do_call, (simp add: catching_def except_clauses_cases  split: exn.splits; fail))
    apply (rule then_do_call, (simp add: catching_def except_clauses_cases  split: exn.splits; fail))
    apply (rule then_do_call, (simp add: catching_def except_clauses_cases  split: exn.splits; fail))
    apply (rule then_do_exists_path)
    apply (rule then_do_missing, (simp add: catching_def except_clauses_cases  split: exn.splits; fail))
    apply (rule then_do_call, (simp add: catching_def except_clauses_cases  split: exn.splits; fail))
    apply (rule then_do_call, (simp add: catching_def except_clauses_cases  split: exn.splits; fail))
    apply (rule then_do_call, (simp add: catching_def except_clauses_cases  split: exn.splits; fail))
    apply (rule then_do_call, (simp add: catching_def except_clauses_cases  split: exn.splits; fail))
    apply (rule then_do_generate)
    apply (rule then_do_call, (simp add: catching_def except_clauses_cases  split: exn.splits; fail))
    apply (rule then_do_batch_search, (simp add: catching_def except_clauses_cases  split: exn.splits; fail))
    apply (drule frame, hypsubst)
    apply (rule then_do_call, (simp add: catching_def except_clauses_cases  split: exn.splits; fail))
    apply (rule then_do_batch_search, (simp add: catching_def except_clauses_cases  split: exn.splits; fail))
    apply (drule frame, hypsubst)
    apply (rule then_do_call, (simp add: catching_def except_clauses_cases  split: exn.splits; fail))
    apply (rule then_do_call, (simp add: catching_def except_clauses_cases  split: exn.splits; fail))
    apply (rule then_do_call, (simp add: catching_def except_clauses_cases  split: exn.splits; fail))
    apply (rule then_do_call, (simp add: catching_def except_clauses_cases  split: exn.splits; fail))
    apply (rule then_do_call, (simp add: catching_def except_clauses_cases  split: exn.splits; fail))
    apply (rule then_do_call, (simp add: catching_def except_clauses_cases  split: exn.splits; fail))
    apply (simp add: catching_def return_def )
    done
qed

theorem main_reuses_queries_witness:
  "leaves_queries_unchanged all_up
   \<and> batch_searches (trace (snd (main all_up [news_file, wiki_file]))) =
       [(news_index, queries, 10), (wiki_index, queries, 10)]"
  using main_reuses_queries [OF leaves_queries_unchanged_all_up, of "[news_file, wiki_file]"]
    leaves_queries_unchanged_all_up batch_searches_all_up
  by simp

text \<open>
  Claim C9. \<^verbatim>\<open>generate_test_queries\<close> always returns a list of exactly 24 query strings, and
  every summary that \<^verbatim>\<open>main\<close> writes has 24 as its \<^verbatim>\<open>query_count\<close>, which \<^verbatim>\<open>main\<close> computes
  as the length of that list. (The list has been through the two calls of \<^verbatim>\<open>batch_search\<close>
  by then; \<^verbatim>\<open>batch_search\<close> is taken not to change the list it is given.)
\<close>

theorem summary_query_count:
  assumes "leaves_queries_unchanged c"
  shows "length (fst (generate_test_queries w0)) = 24
     \<and> list_all (\<lambda>sm. query_count sm = 24) (summaries (trace (snd (main c w))))"
proof -
  note frame = frame_batch_search [OF assms]
  have "list_all (\<lambda>sm. query_count sm = 24) (summaries (trace (snd (main c w))))"
    unfolding main_def ensure_directories_def then_do_assoc try_except_catching main_try_def
      dump_def
    apply (rule then_do_call, (simp add: catching_def except_clauses_cases length_queries split: exn.splits; fail))
    apply (rule then_do_call, (simp add: catching_def except_clauses_cases length_queries split: exn.splits; fail))
    apply (rule then_do_call, (simp add: catching_def except_clauses_cases length_queries split: exn.splits; fail))
    apply (rule then_do_call, (simp add: catching_def except_clauses_cases length_queries split: exn.splits; fail))
    apply (rule then_do_exists_path)
    apply (rule then_do_missing, (simp add: catching_def except_clauses_cases length_queries split: exn.splits; fail))
    apply (rule then_do_call, (simp add: catching_def except_clauses_cases length_queries split: exn.splits; fail))
    apply (rule then_do_call, (simp add: catching_def except_clauses_cases length_queries split: exn.splits; fail))
    apply (rule then_do_call, (simp add: catching_def except_clauses_cases length_queries split: exn.splits; fail))
    apply (rule then_do_call, (simp add: catching_def except_clauses_cases length_queries split: exn.splits; fail))
    apply (rule then_do_exists_path)
    apply (rule then_do_missing, (simp add: catching_def except_clauses_cases length_queries split: exn.splits; fail))
    apply (rule then_do_call, (simp add: catching_def except_clauses_cases length_queries split: exn.splits; fail))
    apply (rule then_do_call, (simp add: catching_def except_clauses_cases length_queries split: exn.splits; fail))
    apply (rule then_do_call, (simp add: catching_def except_clauses_cases length_queries split: exn.splits; fail))
    apply (rule then_do_call, (simp add: catching_def except_clauses_cases length_queries split: exn.splits; fail))
    apply (rule then_do_generate)
    apply (rule then_do_call, (simp add: catching_def except_clauses_cases length_queries split: exn.splits; fail))
    apply (rule then_do_batch_search, (simp add: catching_def except_clauses_cases length_queries split: exn.splits; fail))
    apply (drule frame, hypsubst)
    apply (rule then_do_call, (simp add: catching_def except_clauses_cases length_queries split: exn.splits; fail))
    apply (rule then_do_batch_search, (simp add: catching_def except_clauses_cases length_queries split: exn.splits; fail))
    apply (drule frame, hypsubst)
    apply (rule then_do_call, (simp add: catching_def except_clauses_cases length_queries split: exn.splits; fail))
    apply (rule then_do_call, (simp add: catching_def except_clauses_cases length_queries split: exn.splits; fail))
    apply (rule then_do_call, (simp add: catching_def except_clauses_cases length_queries split: exn.splits; fail))
    apply (rule then_do_call, (simp add: catching_def except_clauses_cases length_queries split: exn.splits; fail))
    apply (rule then_do_call, (simp add: catching_def except_clauses_cases length_queries split: exn.splits; fail))
    apply (rule then_do_call, (simp add: catching_def except_clauses_cases length_queries split: exn.splits; fail))
    apply (simp add: catching_def return_def length_queries)
    done
  then show ?thesis
    by (simp add: generate_test_queries_def length_queries)
qed

lemma summaries_all_up:
  "map query_count (summaries (trace (snd (main all_up [news_file, wiki_file])))) = [24]"
  by (simp add: main_def ensure_directories_def main_try_def dump_def then_do_def call_def
      try_except_def exists_path_def skip_def return_def print_def generate_test_queries_def all_up_def length_queries)

theorem summary_query_count_witness:
  "leaves_queries_unchanged all_up
   \<and> map query_count (summaries (trace (snd (main all_up [news_file, wiki_file])))) = [24]
   \<and> list_all (\<lambda>sm. query_count sm = 24)
        (summaries (trace (snd (main all_up [news_file, wiki_file]))))"
  using summary_query_count [OF leaves_queries_unchanged_all_up, of "()" "[news_file, wiki_file]"]
    leaves_queries_unchanged_all_up summaries_all_up
  by simp

text \<open>
  Claim C7. When the search service cannot be reached, the error reaches the top-level
  runner and is not swallowed: in every run of \<^verbatim>\<open>main\<close> in which a call to the search
  service raises \<^verbatim>\<open>ConnectionError\<close> (the class by which \<^verbatim>\<open>main\<close> recognises an unreachable
  service), that is the only exception of the run, nothing of the pipeline runs after it,
  what follows is the \<^verbatim>\<open>except ConnectionError\<close> clause alone, which prints the error with
  its message and the remedy (to start the service with \<^verbatim>\<open>docker_setup.py\<close>), \<^verbatim>\<open>main\<close>
  returns the exit code 1, and no summary is written.
\<close>

theorem connection_error_reaches_runner:
  assumes "failure (trace (snd (main c w))) = Some (ev, ConnectionError m)"
    and "is_service_call ev"
  shows "fst (main c w) = Return 1
     \<and> raised (trace (snd (main c w))) = [ConnectionError m]
     \<and> after_raise (trace (snd (main c w))) =
         [Print ''Error: Cannot connect to Elasticsearch'', Print (''   '' @ m),
          Print ''Try:'', Print ''   python docker_setup.py start'']
     \<and> summaries (trace (snd (main c w))) = []"
proof -
  have "Some (ev, ConnectionError m) = failure (trace (snd (main c w))) \<longrightarrow>
      is_service_call ev \<longrightarrow>
      fst (main c w) = Return 1
      \<and> raised (trace (snd (main c w))) = [ConnectionError m]
      \<and> after_raise (trace (snd (main c w))) =
          [Print ''Error: Cannot connect to Elasticsearch'', Print (''   '' @ m),
           Print ''Try:'', Print ''   python docker_setup.py start'']
      \<and> summaries (trace (snd (main c w))) = []"
    unfolding main_def ensure_directories_def then_do_assoc try_except_catching main_try_def
      dump_def
    apply (rule then_do_call, (simp add: catching_def except_clauses_cases  split: exn.splits; fail))
    apply (rule then_do_call, (simp add: catching_def except_clauses_cases  split: exn.splits; fail))
    apply (rule then_do_call, (simp add: catching_def except_clauses_cases  split: exn.splits; fail))
    apply (rule then_do_call, (simp add: catching_def except_clauses_cases  split: exn.splits; fail))
    apply (rule then_do_exists_path)
    apply (rule then_do_missing, (simp add: catching_def except_clauses_cases  split: exn.splits; fail))
    apply (rule then_do_call, (simp add: catching_def except_clauses_cases  split: exn.splits; fail))
    apply (rule then_do_call, (simp add: catching_def except_clauses_cases  split: exn.splits; fail))
    apply (rule then_do_call, (simp add: catching_def except_clauses_cases  split: exn.splits; fail))
    apply (rule then_do_call, (simp add: catching_def except_clauses_cases  split: exn.splits; fail))
    apply (rule then_do_exists_path)
    apply (rule then_do_missing, (simp add: catching_def except_clauses_cases  split: exn.splits; fail))
    apply (rule then_do_call, (simp add: catching_def except_clauses_cases  split: exn.splits; fail))
    apply (rule then_do_call, (simp add: catching_def except_clauses_cases  split: exn.splits; fail))
    apply (rule then_do_call, (simp add: catching_def except_clauses_cases  split: exn.splits; fail))
    apply (rule then_do_call, (simp add: catching_def except_clauses_cases  split: exn.splits; fail))
    apply (rule then_do_generate)
    apply (rule then_do_call, (simp add: catching_def except_clauses_cases  split: exn.splits; fail))
    apply (rule then_do_batch_search, (simp add: catching_def except_clauses_cases  split: exn.splits; fail))
    apply (rule then_do_call, (simp add: catching_def except_clauses_cases  split: exn.splits; fail))
    apply (rule then_do_batch_search, (simp add: catching_def except_clauses_cases  split: exn.splits; fail))
    apply (rule then_do_call, (simp add: catching_def except_clauses_cases  split: exn.splits; fail))
    apply (rule then_do_call, (simp add: catching_def except_clauses_cases  split: exn.splits; fail))
    apply (rule then_do_call, (simp add: catching_def except_clauses_cases  split: exn.splits; fail))
    apply (rule then_do_call, (simp add: catching_def except_clauses_cases  split: exn.splits; fail))
    apply (rule then_do_call, (simp add: catching_def except_clauses_cases  split: exn.splits; fail))
    apply (rule then_do_call, (simp add: catching_def except_clauses_cases  split: exn.splits; fail))
    apply (simp add: catching_def return_def )
    done
  with assms(1) [symmetric] assms(2) show ?thesis
    by blast
qed

lemma main_service_down:
  "main service_down [] =
     (Return 1,
      \<lparr>world = [],
       trace =
         [Call_makedirs ''results/metrics'', Call_makedirs ''results/plots'',
          Call_makedirs ''tests/query_sets'', Call_ElasticsearchIndexer True,
          Raised (ConnectionError ''Connection refused''),
          Print ''Error: Cannot connect to Elasticsearch'', Print ''   Connection refused'',
          Print ''Try:'', Print ''   python docker_setup.py start'']\<rparr>)"
  by (simp add: main_def ensure_directories_def main_try_def dump_def then_do_def call_def
      try_except_def exists_path_def skip_def return_def print_def generate_test_queries_def service_down_def all_up_def)

theorem connection_error_reaches_runner_witness:
  "failure (trace (snd (main service_down []))) =
     Some (Call_ElasticsearchIndexer True, ConnectionError ''Connection refused'')
   \<and> is_service_call (Call_ElasticsearchIndexer True :: string event)
   \<and> fst (main service_down []) = Return 1
   \<and> raised (trace (snd (main service_down []))) = [ConnectionError ''Connection refused'']
   \<and> after_raise (trace (snd (main service_down []))) =
       [Print ''Error: Cannot connect to Elasticsearch'', Print ''   Connection refused'',
        Print ''Try:'', Print ''   python docker_setup.py start'']
   \<and> summaries (trace (snd (main service_down []))) = []"
  using connection_error_reaches_runner
    [of service_down "[]" "Call_ElasticsearchIndexer True" "''Connection refused''"]
  by (simp add: main_service_down)






section \<open>Properties of \<^verbatim>\<open>preprocess_text\<close>\<close>











section \<open>Properties of the search benchmark driver of the specification\<close>

lemma interpolate_bounds:
  assumes "sorted s" and "s \<noteq> []" and "0 \<le> r" and "r \<le> real (length s - 1)"
  shows "s ! nat \<lfloor>r\<rfloor> \<le> interpolate s r"
    and "interpolate s r \<le> s ! min (nat \<lfloor>r\<rfloor> + 1) (length s - 1)"
proof -
  define lo where "lo = nat \<lfloor>r\<rfloor>"
  define hi where "hi = min (lo + 1) (length s - 1)"
  have lo_r: "real lo \<le> r" and r_lo: "r < real lo + 1"
    using assms(3) by (simp_all add: lo_def)
  have "real lo \<le> real (length s - 1)"
    using lo_r assms(4) by linarith
  then have lo_le: "lo \<le> length s - 1"
    by simp
  have "hi \<le> length s - 1" and "0 < length s"
    using assms(2) by (simp_all add: hi_def)
  then have hi_lt: "hi < length s"
    by linarith
  have lo_hi: "lo \<le> hi"
    using lo_le by (simp add: hi_def)
  have d: "s ! lo \<le> s ! hi"
    using assms(1) lo_hi hi_lt by (rule sorted_nth_mono)
  have v: "interpolate s r = s ! lo + (r - real lo) * (s ! hi - s ! lo)"
    by (simp add: interpolate_def lo_def hi_def Let_def)
  have f0: "0 \<le> r - real lo" and f1: "r - real lo \<le> 1"
    using lo_r r_lo by linarith+
  have "0 \<le> (r - real lo) * (s ! hi - s ! lo)"
    using f0 d by simp
  then show "s ! nat \<lfloor>r\<rfloor> \<le> interpolate s r"
    unfolding v by (simp add: lo_def)
  have "(r - real lo) * (s ! hi - s ! lo) \<le> 1 * (s ! hi - s ! lo)"
    using f1 d by (intro mult_right_mono) simp_all
  then show "interpolate s r \<le> s ! min (nat \<lfloor>r\<rfloor> + 1) (length s - 1)"
    unfolding v by (simp add: lo_def hi_def)
qed

lemma interpolate_mono:
  assumes "sorted s" and "s \<noteq> []" and "0 \<le> r" and "r \<le> r'" and "r' \<le> real (length s - 1)"
  shows "interpolate s r \<le> interpolate s r'"
proof (cases "nat \<lfloor>r\<rfloor> = nat \<lfloor>r'\<rfloor>")
  case True
  define lo where "lo = nat \<lfloor>r\<rfloor>"
  define hi where "hi = min (lo + 1) (length s - 1)"
  have lo_r: "real lo \<le> r"
    using assms(3) by (simp add: lo_def)
  have "real lo \<le> real (length s - 1)"
    using lo_r assms(4,5) by linarith
  then have lo_le: "lo \<le> length s - 1"
    by simp
  have "hi \<le> length s - 1" and "0 < length s"
    using assms(2) by (simp_all add: hi_def)
  then have hi_lt: "hi < length s"
    by linarith
  have "s ! lo \<le> s ! hi"
    using assms(1) _ hi_lt by (rule sorted_nth_mono) (use lo_le in \<open>simp add: hi_def\<close>)
  then have "(r - real lo) * (s ! hi - s ! lo) \<le> (r' - real lo) * (s ! hi - s ! lo)"
    using assms(4) by (intro mult_right_mono) simp_all
  then show ?thesis
    using True by (simp add: interpolate_def Let_def lo_def hi_def)
next
  case False
  have r'0: "0 \<le> r'"
    using assms(3,4) by linarith
  have "\<lfloor>r\<rfloor> \<le> \<lfloor>r'\<rfloor>"
    using assms(4) by (rule floor_mono)
  then have "nat \<lfloor>r\<rfloor> \<le> nat \<lfloor>r'\<rfloor>"
    by simp
  with False have lt: "nat \<lfloor>r\<rfloor> + 1 \<le> nat \<lfloor>r'\<rfloor>"
    by simp
  have "real (nat \<lfloor>r'\<rfloor>) \<le> r'"
    using r'0 by simp
  then have "real (nat \<lfloor>r'\<rfloor>) \<le> real (length s - 1)"
    using assms(5) by linarith
  then have "nat \<lfloor>r'\<rfloor> \<le> length s - 1"
    by simp
  moreover have "0 < length s"
    using assms(2) by simp
  ultimately have lo'_lt: "nat \<lfloor>r'\<rfloor> < length s"
    by linarith
  have "r \<le> real (length s - 1)"
    using assms(4,5) by linarith
  then have "interpolate s r \<le> s ! min (nat \<lfloor>r\<rfloor> + 1) (length s - 1)"
    using assms(1,2,3) by (intro interpolate_bounds(2))
  also have "\<dots> \<le> s ! nat \<lfloor>r'\<rfloor>"
    using assms(1) _ lo'_lt by (rule sorted_nth_mono) (use lt in simp)
  also have "\<dots> \<le> interpolate s r'"
    using assms(1,2) r'0 assms(5) by (rule interpolate_bounds(1))
  finally show ?thesis .
qed

lemma median_interpolate:
  assumes "L \<noteq> []"
  shows "median_of L = interpolate (sort L) (real (length L - 1) / 2)"
proof (cases "odd (length L)")
  case True
  then obtain k where k: "length L = 2 * k + 1"
    by (elim oddE)
  then have "real (length L - 1) / 2 = real k"
    by simp
  then show ?thesis
    using True k by (simp add: median_of_def interpolate_def Let_def)
next
  case False
  then have "even (length L)"
    by simp
  then obtain k where k: "length L = 2 * k"
    by (elim evenE)
  with assms have k1: "1 \<le> k"
    by (cases k) simp_all
  then have r: "real (length L - 1) / 2 = real k - 1 / 2"
    using k by (simp add: of_nat_diff field_simps)
  have fl: "\<lfloor>real k - 1 / 2\<rfloor> = int k - 1"
    by (rule floor_unique) simp_all
  have lo: "nat \<lfloor>real k - 1 / 2\<rfloor> = k - 1"
    unfolding fl using k1 by simp
  have hi: "min (k - 1 + 1) (length (sort L) - 1) = k"
    using k k1 by simp
  have frac: "real k - 1 / 2 - real (k - 1) = 1 / 2"
    using k1 by (simp add: of_nat_diff)
  have "interpolate (sort L) (real k - 1 / 2) =
      sort L ! (k - 1) + 1 / 2 * (sort L ! k - sort L ! (k - 1))"
    unfolding interpolate_def Let_def lo hi frac ..
  moreover have "median_of L = (sort L ! (k - 1) + sort L ! k) / 2"
    using False k by (simp add: median_of_def Let_def)
  ultimately show ?thesis
    unfolding r by (simp add: field_simps)
qed

lemma median_le_upper:
  assumes "L \<noteq> []"
  shows "median_of L \<le> sort L ! (length L div 2)"
proof (cases "odd (length L)")
  case True
  then show ?thesis
    by (simp add: median_of_def Let_def)
next
  case False
  have "0 < length L"
    using assms by simp
  then have "sort L ! (length L div 2 - 1) \<le> sort L ! (length L div 2)"
    by (intro sorted_nth_mono) simp_all
  then show ?thesis
    using False by (simp add: median_of_def Let_def field_simps)
qed

lemma nth_sort_bounds:
  assumes "i < length L"
  shows "min_of L \<le> sort L ! i" and "sort L ! i \<le> max_of L"
proof -
  have "sort L ! i \<in> set L"
    using assms by (metis length_sort nth_mem set_sort)
  then show "min_of L \<le> sort L ! i" and "sort L ! i \<le> max_of L"
    by (simp_all add: min_of_def max_of_def)
qed

lemma nearest_rank_indices:
  assumes "0 < n"
  shows "n div 2 \<le> nat \<lceil>95 / 100 * real n\<rceil> - 1"
    and "nat \<lceil>95 / 100 * real n\<rceil> - 1 \<le> nat \<lceil>99 / 100 * real n\<rceil> - 1"
    and "nat \<lceil>99 / 100 * real n\<rceil> - 1 < n"
proof -
  have "real (n div 2) \<le> real n / 2"
    by (metis of_nat_div_le_of_nat of_nat_numeral)
  also have "\<dots> < 95 / 100 * real n"
    using assms by simp
  finally have "of_int (int (n div 2)) < 95 / 100 * real n"
    by simp
  then have "int (n div 2) < \<lceil>95 / 100 * real n\<rceil>"
    by (simp only: less_ceiling_iff)
  then show "n div 2 \<le> nat \<lceil>95 / 100 * real n\<rceil> - 1"
    by linarith
  have "\<lceil>95 / 100 * real n\<rceil> \<le> \<lceil>99 / 100 * real n\<rceil>"
    by (rule ceiling_mono) simp
  then show "nat \<lceil>95 / 100 * real n\<rceil> - 1 \<le> nat \<lceil>99 / 100 * real n\<rceil> - 1"
    by linarith
  have "99 / 100 * real n \<le> of_int (int n)"
    by simp
  then have "\<lceil>99 / 100 * real n\<rceil> \<le> int n"
    by (rule ceiling_le)
  then show "nat \<lceil>99 / 100 * real n\<rceil> - 1 < n"
    using assms by linarith
qed

lemma statistics_ordered:
  assumes "L \<noteq> []"
  shows "min_of L \<le> median_of L \<and> median_of L \<le> max_of L
     \<and> median_of L \<le> percentile meth 95 L
     \<and> percentile meth 95 L \<le> percentile meth 99 L
     \<and> percentile meth 99 L \<le> max_of L"
proof -
  define s where "s = sort L"
  define n where "n = length L"
  have n: "0 < n" and s13: "sorted s" "length s = n"
    using assms by (simp_all add: s_def n_def)
  then have "s \<noteq> []"
    by auto
  note s = s13(1) this s13(2)
  have top: "real (length s - 1) = real n - 1"
    using n s(3) by (simp add: of_nat_diff)
  have r50: "0 \<le> real (n - 1) / 2" "real (n - 1) / 2 \<le> real (length s - 1)"
    using n s(3) by simp_all
  have med: "median_of L = interpolate s (real (n - 1) / 2)"
    using assms by (simp add: median_interpolate s_def n_def)
  have idx50: "nat \<lfloor>real (n - 1) / 2\<rfloor> < length L"
  proof -
    have "\<lfloor>real (n - 1) / 2\<rfloor> \<le> \<lfloor>real (n - 1)\<rfloor>"
      by (rule floor_mono) simp
    then have "nat \<lfloor>real (n - 1) / 2\<rfloor> \<le> n - 1"
      by simp
    with n have "nat \<lfloor>real (n - 1) / 2\<rfloor> < n"
      by linarith
    then show ?thesis
      by (simp only: n_def)
  qed
  have "min_of L \<le> s ! nat \<lfloor>real (n - 1) / 2\<rfloor>"
    unfolding s_def using idx50 by (rule nth_sort_bounds(1))
  also have "\<dots> \<le> median_of L"
    unfolding med using s(1,2) r50 by (rule interpolate_bounds(1))
  finally have lower: "min_of L \<le> median_of L" .
  have last_max: "s ! (n - 1) \<le> max_of L"
    unfolding s_def using n by (intro nth_sort_bounds(2)) (simp add: n_def)
  have upper: "median_of L \<le> percentile meth 95 L
     \<and> percentile meth 95 L \<le> percentile meth 99 L
     \<and> percentile meth 99 L \<le> max_of L"
  proof (cases meth)
    case NearestRank
    note idx = nearest_rank_indices [OF n]
    have "median_of L \<le> s ! (n div 2)"
      using assms by (simp add: median_le_upper s_def n_def)
    also have "\<dots> \<le> s ! (nat \<lceil>95 / 100 * real n\<rceil> - 1)"
      using s(1) idx(1) by (rule sorted_nth_mono) (use idx s(3) in linarith)
    finally have a: "median_of L \<le> percentile meth 95 L"
      by (simp add: NearestRank s_def n_def)
    have b: "percentile meth 95 L \<le> percentile meth 99 L"
      using sorted_nth_mono [OF s(1) idx(2)] idx(3) s(3) by (simp add: NearestRank s_def n_def)
    have "s ! (nat \<lceil>99 / 100 * real n\<rceil> - 1) \<le> max_of L"
      unfolding s_def using idx(3) by (intro nth_sort_bounds(2)) (simp add: n_def)
    then have c: "percentile meth 99 L \<le> max_of L"
      by (simp add: NearestRank s_def n_def)
    from a b c show ?thesis
      by simp
  next
    case LinearInterpolation
    have p: "percentile meth p L = interpolate s (p / 100 * real (n - 1))" for p
      by (simp add: LinearInterpolation s_def n_def)
    have r: "0 \<le> real (n - 1) / 2" "real (n - 1) / 2 \<le> 95 / 100 * real (n - 1)"
      "95 / 100 * real (n - 1) \<le> 99 / 100 * real (n - 1)"
      "99 / 100 * real (n - 1) \<le> real (length s - 1)"
      by (simp_all add: s(3))
    have a: "median_of L \<le> percentile meth 95 L"
      unfolding med p using s(1,2) r(1,2) by (rule interpolate_mono) (use r in linarith)
    have b: "percentile meth 95 L \<le> percentile meth 99 L"
      unfolding p using s(1,2) _ r(3,4) by (rule interpolate_mono) (use r in linarith)
    have "percentile meth 99 L
        \<le> s ! min (nat \<lfloor>99 / 100 * real (n - 1)\<rfloor> + 1) (length s - 1)"
      unfolding p using s(1,2) _ r(4) by (rule interpolate_bounds(2)) simp
    also have "\<dots> \<le> s ! (n - 1)"
      using s(1) by (rule sorted_nth_mono) (use n s(3) in simp_all)
    also note last_max
    finally have c: "percentile meth 99 L \<le> max_of L" .
    from a b c show ?thesis
      by simp
  qed
  then have "median_of L \<le> max_of L"
    by linarith
  with lower upper show ?thesis
    by simp
qed

text \<open>
  Claim C1. For every non-empty sequence of per-query latencies recorded by the Search
  Benchmark Driver, the aggregate statistics it computes satisfy min \<open>\<le>\<close> median \<open>\<le>\<close> max and
  median \<open>\<le>\<close> P95 \<open>\<le>\<close> P99 \<open>\<le>\<close> max, by nearest rank as well as by linear interpolation.
\<close>

theorem search_run_statistics_ordered:
  assumes "search_benchmark meth policy search index qs k = Inr result"
    and "run_latencies result \<noteq> []"
  shows "\<exists>mn md p95 p99 mx.
     run_min result = Some mn \<and> run_median result = Some md \<and> run_p95 result = Some p95
     \<and> run_p99 result = Some p99 \<and> run_max result = Some mx
     \<and> mn \<le> md \<and> md \<le> mx \<and> md \<le> p95 \<and> p95 \<le> p99 \<and> p99 \<le> mx"
proof -
  obtain ls failed where rq: "run_queries (\<lambda>q. search index q k) qs = (ls, failed)"
    by (cases "run_queries (\<lambda>q. search index q k) qs")
  with assms(1) have run: "result =
     \<lparr>run_latencies = ls, run_failed = failed,
      run_mean = aggregate policy mean_of ls,
      run_median = aggregate policy median_of ls,
      run_p95 = aggregate policy (percentile meth 95) ls,
      run_p99 = aggregate policy (percentile meth 99) ls,
      run_min = aggregate policy min_of ls,
      run_max = aggregate policy max_of ls\<rparr>"
    by (simp add: search_benchmark_def split: if_splits)
  with assms(2) have ls: "ls \<noteq> []"
    by simp
  from statistics_ordered [OF ls, of meth] show ?thesis
    by (simp add: run aggregate_def ls)
qed

lemma search_benchmark_toy:
  "search_benchmark NearestRank ReportNoData toy_search ''esindex-v1.0-news''
     [''a'', ''bbb'', [], ''cc''] 10 = Inr toy_run"
  by (simp add: search_benchmark_def toy_search_def aggregate_def toy_run_def)

lemma toy_values:
  "median_of [1, 3, 2] = 2" "percentile NearestRank 95 [1, 3, 2] = 3"
  "percentile LinearInterpolation 95 [1, 3, 2] = 29 / 10"
  "min_of [1, 3, 2] = 1" "max_of [1, 3, 2] = 3"
  by (simp_all add: median_of_def min_of_def max_of_def interpolate_def Let_def)

theorem search_run_statistics_ordered_witness:
  "search_benchmark NearestRank ReportNoData toy_search ''esindex-v1.0-news''
     [''a'', ''bbb'', [], ''cc''] 10 = Inr toy_run
   \<and> run_latencies toy_run = [1, 3, 2]
   \<and> (\<exists>mn md p95 p99 mx.
        run_min toy_run = Some mn \<and> run_median toy_run = Some md \<and> run_p95 toy_run = Some p95
        \<and> run_p99 toy_run = Some p99 \<and> run_max toy_run = Some mx
        \<and> mn \<le> md \<and> md \<le> mx \<and> md \<le> p95 \<and> p95 \<le> p99 \<and> p99 \<le> mx)"
proof -
  have "run_latencies toy_run \<noteq> []"
    by (simp add: toy_run_def)
  with search_benchmark_toy search_run_statistics_ordered [OF search_benchmark_toy]
  show ?thesis
    by (simp add: toy_run_def)
qed

text \<open>
  Claim C8. If the query sequence given to the Search Benchmark Driver is empty, the driver
  does not raise: it produces a SearchRun with zero recorded latencies, no failed query, and
  every aggregate defined, as zero or as "no data".
\<close>

theorem empty_query_sequence_defined:
  "search_benchmark meth policy search index [] k =
     Inr \<lparr>run_latencies = [], run_failed = 0,
          run_mean = empty_value policy, run_median = empty_value policy,
          run_p95 = empty_value policy, run_p99 = empty_value policy,
          run_min = empty_value policy, run_max = empty_value policy\<rparr>
   \<and> (empty_value policy = Some 0 \<or> empty_value policy = None)"
  by (cases policy) (simp_all add: search_benchmark_def aggregate_def)

end
